theory Spec2Isabelle
  imports Main
begin

section \<open>JavaScript values, errors and strings\<close>

text \<open>
  The values that reach the query builders: the members of a parsed query string or of a
  validated JSON body. Numbers are the integral ones (salaries, employee counts, ids);
  fractional numbers, arrays and nested objects are outside this model.
\<close>

datatype js_value = JUndefined | JNull | JBool bool | JNum int | JStr string

text \<open>
  The error classes of \<^verbatim>\<open>expressError.js\<close> that the sources throw. The module itself
  is not among the sources: each class is a constructor carrying its message, and
  \<open>status\<close> is the HTTP status the route tests expect for it. \<open>BadRequestErrors\<close> is
  \<^verbatim>\<open>new BadRequestError(errs)\<close> with the array of schema messages; \<open>StoreError\<close> is
  whatever the data base driver rejects with. \<open>UnauthorizedError\<close> and \<open>ForbiddenError\<close>
  are the two failures of the authorization gate in the specification's taxonomy: no
  credential, and a credential that is present but insufficient, with the HTTP statuses
  of those names.
\<close>

datatype error =
    BadRequestError string
  | BadRequestErrors "string list"
  | NotFoundError string
  | UnauthorizedError
  | ForbiddenError
  | ExpressError string nat
  | StoreError string

fun status :: "error \<Rightarrow> nat" where
  "status (BadRequestError m) = 400"
| "status (BadRequestErrors ms) = 400"
| "status (NotFoundError m) = 404"
| "status UnauthorizedError = 401"
| "status ForbiddenError = 403"
| "status (ExpressError m st) = st"
| "status (StoreError m) = 500"

definition dq :: string where
  "dq = [CHR 0x22]"

definition ap :: string where
  "ap = [CHR 0x27]"

definition digit :: "nat \<Rightarrow> char" where
  "digit d = ''0123456789'' ! d"

text \<open>The decimal text of a non-negative integer, as a template literal prints it.\<close>

function show_nat :: "nat \<Rightarrow> string" where
  "show_nat n = (if n < 10 then [digit n] else show_nat (n div 10) @ [digit (n mod 10)])"
  by pat_completeness auto
termination
  by (relation "measure id") auto

declare show_nat.simps [simp del]

text \<open>\<^verbatim>\<open>`${v}`\<close>: the string conversion of a template literal.\<close>

fun js_to_string :: "js_value \<Rightarrow> string" where
  "js_to_string JUndefined = ''undefined''"
| "js_to_string JNull = ''null''"
| "js_to_string (JBool b) = (if b then ''true'' else ''false'')"
| "js_to_string (JNum i) = (if i < 0 then ''-'' @ show_nat (nat (- i)) else show_nat (nat i))"
| "js_to_string (JStr s) = s"

text \<open>\<^verbatim>\<open>Array.prototype.join\<close> on an array of strings.\<close>

fun join :: "string \<Rightarrow> string list \<Rightarrow> string" where
  "join sep [] = []"
| "join sep [x] = x"
| "join sep (x # y # ys) = x @ sep @ join sep (y # ys)"

text \<open>
  An object literal is the list of its own enumerable entries in the order
  \<^verbatim>\<open>Object.keys\<close>, \<^verbatim>\<open>Object.entries\<close> and \<^verbatim>\<open>for ... in\<close> enumerate them; its keys
  are distinct.
\<close>

type_synonym js_object = "(string \<times> js_value) list"

text \<open>
  Reading a decimal numeral back, as the store reads the index of a placeholder.
\<close>

definition digit_val :: "char \<Rightarrow> nat" where
  "digit_val c = of_char c - 48"

definition read_nat :: "string \<Rightarrow> nat" where
  "read_nat s = foldl (\<lambda>acc c. 10 * acc + digit_val c) 0 s"

section \<open>helpers/sql.js\<close>

text \<open>
  \<^verbatim>\<open>jsToSql[colName] || colName\<close>: the column map is a map from field names to column
  names (its own properties); a missing entry and the empty string are falsy, so both
  fall back to the field name. Field names that \<^verbatim>\<open>Object.prototype\<close> defines (such as
  \<^verbatim>\<open>constructor\<close>), for which the lookup finds an inherited member, are outside the model.
\<close>

definition column_of :: "(string \<rightharpoonup> string) \<Rightarrow> string \<Rightarrow> string" where
  "column_of jsToSql colName =
     (case jsToSql colName of
        None \<Rightarrow> colName
      | Some c \<Rightarrow> if c = [] then colName else c)"

definition set_col :: "(string \<rightharpoonup> string) \<Rightarrow> nat \<times> string \<Rightarrow> string" where
  "set_col jsToSql = (\<lambda>(idx, colName).
     dq @ column_of jsToSql colName @ dq @ ''=$'' @ show_nat (idx + 1))"

record update_sql =
  setCols :: string
  vals :: "js_value list"

text \<open>\<^verbatim>\<open>keys.map((colName, idx) => ...)\<close>: the array \<^verbatim>\<open>cols\<close>.\<close>

definition update_cols :: "(string \<rightharpoonup> string) \<Rightarrow> string list \<Rightarrow> string list" where
  "update_cols jsToSql keys = map (set_col jsToSql) (enumerate 0 keys)"

definition sqlForPartialUpdate ::
  "js_object \<Rightarrow> (string \<rightharpoonup> string) \<Rightarrow> error + update_sql" where
  "sqlForPartialUpdate dataToUpdate jsToSql =
     (let keys = map fst dataToUpdate in
      if length keys = 0 then Inl (BadRequestError ''No data'')
      else
        let cols = update_cols jsToSql keys in
        Inr \<lparr> setCols = join '', '' cols, vals = map snd dataToUpdate \<rparr>)"

text \<open>
  The index a fragment's placeholder carries: the numeral after its last \<^verbatim>\<open>$\<close>, read as
  the store reads it.
\<close>

definition placeholder_index :: "string \<Rightarrow> nat" where
  "placeholder_index fragment =
     read_nat (rev (takeWhile (\<lambda>c. c \<noteq> CHR ''$'') (rev fragment)))"

text \<open>
  The numbering a compiled clause must have for the store: the placeholders of its
  fragments, read in the order of emission, are 1, 2, ... up to the number of bound
  values. A fragment without a \<^verbatim>\<open>$\<close> carries no placeholder.
\<close>

definition has_placeholder :: "string \<Rightarrow> bool" where
  "has_placeholder fragment = (CHR ''$'' \<in> set fragment)"

definition placeholders :: "string list \<Rightarrow> nat list" where
  "placeholders fragments = map placeholder_index (filter has_placeholder fragments)"

definition aligned :: "string list \<Rightarrow> js_value list \<Rightarrow> bool" where
  "aligned fragments values = (placeholders fragments = [1 ..< length values + 1])"

section \<open>The store\<close>

text \<open>
  \<^verbatim>\<open>db.query(sql, params)\<close>. The data base module is not among the sources, so the
  driver is a parameter of every repository function: given the statement text and the
  positional parameters it either rejects with an error or answers with rows, and it
  takes the store from one state to the next. In the statement texts below the layout of
  the template literals (line breaks and indentation) is written as single spaces.
\<close>

type_synonym ('s, 'r) db = "string \<Rightarrow> js_value list \<Rightarrow> 's \<Rightarrow> (error + 'r list) \<times> 's"

text \<open>\<^verbatim>\<open>obj[k]\<close> on an object literal, and \<^verbatim>\<open>rows[0]\<close>.\<close>

definition field :: "js_object \<Rightarrow> string \<Rightarrow> js_value" where
  "field obj k = (case map_of obj k of None \<Rightarrow> JUndefined | Some v \<Rightarrow> v)"

definition first_row :: "'r list \<Rightarrow> 'r option" where
  "first_row rows = (case rows of [] \<Rightarrow> None | r # _ \<Rightarrow> Some r)"

section \<open>models/job.js\<close>

definition job_company_check_sql :: string where
  "job_company_check_sql = ''SELECT handle FROM companies WHERE handle = $1''"

definition job_insert_sql :: string where
  "job_insert_sql =
     ''INSERT INTO jobs (title, salary, equity, company_handle) VALUES ($1, $2, $3, $4) ''
     @ ''RETURNING id, title, salary, equity, company_handle AS ''
     @ dq @ ''companyHandle'' @ dq"

definition Job_create :: "('s, 'r) db \<Rightarrow> js_object \<Rightarrow> 's \<Rightarrow> (error + 'r option) \<times> 's" where
  "Job_create db data s =
     (let title = field data ''title''; salary = field data ''salary'';
          equity = field data ''equity''; companyHandle = field data ''companyHandle'' in
      case db job_company_check_sql [companyHandle] s of
        (Inl e, s1) \<Rightarrow> (Inl e, s1)
      | (Inr compHandleCheck, s1) \<Rightarrow>
          if first_row compHandleCheck = None then
            (Inl (BadRequestError
               (''Company '' @ ap @ js_to_string companyHandle @ ap @ '' does not exist'')), s1)
          else
            (case db job_insert_sql [title, salary, equity, companyHandle] s1 of
               (Inl e, s2) \<Rightarrow> (Inl e, s2)
             | (Inr rows, s2) \<Rightarrow> (Inr (first_row rows), s2)))"

text \<open>
  The loop of \<^verbatim>\<open>Job.findAll\<close> over \<^verbatim>\<open>Object.entries(filterBy)\<close>: one pass of its
  body is \<open>Job_filter_step\<close>, on the pair of arrays \<^verbatim>\<open>filters\<close> and \<^verbatim>\<open>values\<close>, and the
  loop runs it over the entries in order from two empty arrays. The \<^verbatim>\<open>switch\<close> has no
  default: any other key falls through.
\<close>

definition Job_filter_step ::
  "string list \<times> js_value list \<Rightarrow> string \<times> js_value \<Rightarrow> string list \<times> js_value list" where
  "Job_filter_step = (\<lambda>(filters, values) (key, value).
     if key = ''titleLike'' then
       (filters @ [''title ILIKE $'' @ show_nat (length filters + 1)],
        values @ [JStr (''%'' @ js_to_string value @ ''%'')])
     else if key = ''minSalary'' then
       (filters @ [''salary >= $'' @ show_nat (length filters + 1)],
        values @ [value])
     else if key = ''hasEquity'' then
       (filters @ [''equity > 0''], values)
     else (filters, values))"

definition Job_filters :: "js_object \<Rightarrow> string list \<times> js_value list" where
  "Job_filters filterBy = foldl Job_filter_step ([], []) filterBy"

definition Job_where :: "js_object \<Rightarrow> string \<times> js_value list" where
  "Job_where filterBy =
     (if length (map fst filterBy) > 0 then
        (let (filters, values) = Job_filters filterBy in
         (''WHERE '' @ join '' AND '' filters, values))
      else ([], []))"

definition Job_query :: "string \<Rightarrow> string" where
  "Job_query whereClause =
     ''SELECT id, title, salary, equity, company_handle AS '' @ dq @ ''companyHandle'' @ dq
     @ '' FROM jobs '' @ whereClause @ '' ORDER BY company_handle''"

definition Job_findAll :: "('s, 'r) db \<Rightarrow> js_object \<Rightarrow> 's \<Rightarrow> (error + 'r list) \<times> 's" where
  "Job_findAll db filterBy s =
     (let (whereClause, values) = Job_where filterBy in
      case db (Job_query whereClause) values s of
        (Inl e, s1) \<Rightarrow> (Inl e, s1)
      | (Inr rows, s1) \<Rightarrow>
          if length rows = 0 then (Inl (NotFoundError ''No jobs match the parameters''), s1)
          else (Inr rows, s1))"

definition Job_update :: "('s, 'r) db \<Rightarrow> js_value \<Rightarrow> js_object \<Rightarrow> 's \<Rightarrow> (error + 'r) \<times> 's" where
  "Job_update db id' data s =
     (case sqlForPartialUpdate data [''companyHandle'' \<mapsto> ''company_handle''] of
        Inl e \<Rightarrow> (Inl e, s)
      | Inr u \<Rightarrow>
          (let handleVarIdx = ''$'' @ show_nat (length (vals u) + 1);
               querySql = ''UPDATE jobs SET '' @ setCols u @ '' WHERE id = '' @ handleVarIdx
                 @ '' RETURNING id, title, salary, equity, company_handle AS ''
                 @ dq @ ''companyHandle'' @ dq in
           case db querySql (vals u @ [id']) s of
             (Inl e, s1) \<Rightarrow> (Inl e, s1)
           | (Inr rows, s1) \<Rightarrow>
               (case first_row rows of
                  None \<Rightarrow> (Inl (NotFoundError (''No job has the id: '' @ js_to_string id')), s1)
                | Some job \<Rightarrow> (Inr job, s1))))"

definition Job_remove :: "('s, 'r) db \<Rightarrow> js_value \<Rightarrow> 's \<Rightarrow> (error + unit) \<times> 's" where
  "Job_remove db id' s =
     (case db ''DELETE FROM jobs WHERE id = $1 RETURNING id'' [id'] s of
        (Inl e, s1) \<Rightarrow> (Inl e, s1)
      | (Inr rows, s1) \<Rightarrow>
          (case first_row rows of
             None \<Rightarrow> (Inl (NotFoundError (''No job with id: '' @ js_to_string id')), s1)
           | Some job \<Rightarrow> (Inr (), s1)))"

section \<open>models/company.js\<close>

definition company_dup_check_sql :: string where
  "company_dup_check_sql = ''SELECT handle FROM companies WHERE handle = $1''"

definition company_insert_sql :: string where
  "company_insert_sql =
     ''INSERT INTO companies (handle, name, description, num_employees, logo_url) ''
     @ ''VALUES ($1, $2, $3, $4, $5) ''
     @ ''RETURNING handle, name, description, num_employees AS '' @ dq @ ''numEmployees'' @ dq
     @ '', logo_url AS '' @ dq @ ''logoUrl'' @ dq"

definition Company_create :: "('s, 'r) db \<Rightarrow> js_object \<Rightarrow> 's \<Rightarrow> (error + 'r option) \<times> 's" where
  "Company_create db data s =
     (let handle = field data ''handle''; name = field data ''name'';
          description = field data ''description'';
          numEmployees = field data ''numEmployees''; logoUrl = field data ''logoUrl'' in
      case db company_dup_check_sql [handle] s of
        (Inl e, s1) \<Rightarrow> (Inl e, s1)
      | (Inr duplicateCheck, s1) \<Rightarrow>
          if first_row duplicateCheck \<noteq> None then
            (Inl (BadRequestError (''Duplicate company: '' @ js_to_string handle)), s1)
          else
            (case db company_insert_sql [handle, name, description, numEmployees, logoUrl] s1 of
               (Inl e, s2) \<Rightarrow> (Inl e, s2)
             | (Inr rows, s2) \<Rightarrow> (Inr (first_row rows), s2)))"

text \<open>
  The loop of \<^verbatim>\<open>Company.findAll\<close> over \<^verbatim>\<open>for (let key in filterBy)\<close>: one pass of
  its body is \<open>Company_filter_step\<close>, on \<^verbatim>\<open>filterQueries\<close>, \<^verbatim>\<open>values\<close> and the counter
  \<^verbatim>\<open>idx\<close>, which starts at 1. The unary plus of the language
  (\<^verbatim>\<open>+filterBy[key]\<close>) is the parameter \<open>toNumber\<close>.
\<close>

definition Company_filter_step ::
  "(js_value \<Rightarrow> js_value) \<Rightarrow> string list \<times> js_value list \<times> nat \<Rightarrow> string \<times> js_value
     \<Rightarrow> string list \<times> js_value list \<times> nat" where
  "Company_filter_step toNumber = (\<lambda>(filterQueries, values, idx) (key, v).
     if idx = 1 then
       (if key = ''nameLike'' then
          (filterQueries @ [''WHERE name ILIKE $'' @ show_nat idx],
           values @ [JStr (''%'' @ js_to_string v @ ''%'')], idx + 1)
        else if key = ''minEmployees'' then
          (filterQueries @ [''WHERE num_employees >= $'' @ show_nat idx],
           values @ [toNumber v], idx + 1)
        else if key = ''maxEmployees'' then
          (filterQueries @ [''WHERE num_employees <= $'' @ show_nat idx],
           values @ [toNumber v], idx + 1)
        else (filterQueries, values, idx))
     else
       (if key = ''nameLike'' then
          (filterQueries @ [''name ILIKE $'' @ show_nat idx],
           values @ [JStr (''%'' @ js_to_string v @ ''%'')], idx + 1)
        else if key = ''minEmployees'' then
          (filterQueries @ [''num_employees >= $'' @ show_nat idx],
           values @ [toNumber v], idx + 1)
        else if key = ''maxEmployees'' then
          (filterQueries @ [''num_employees <= $'' @ show_nat idx],
           values @ [toNumber v], idx + 1)
        else (filterQueries, values, idx)))"

definition Company_filters ::
  "(js_value \<Rightarrow> js_value) \<Rightarrow> js_object \<Rightarrow> string list \<times> js_value list \<times> nat" where
  "Company_filters toNumber filterBy = foldl (Company_filter_step toNumber) ([], [], 1) filterBy"

definition Company_where :: "(js_value \<Rightarrow> js_value) \<Rightarrow> js_object \<Rightarrow> string \<times> js_value list" where
  "Company_where toNumber filterBy =
     (let (filterQueries, values, idx) = Company_filters toNumber filterBy in
      (join '' AND '' filterQueries, values))"

definition Company_query :: "string \<Rightarrow> string" where
  "Company_query joinedQueries =
     ''SELECT handle, name, description, num_employees AS '' @ dq @ ''numEmployees'' @ dq
     @ '', logo_url AS '' @ dq @ ''logoUrl'' @ dq
     @ '' FROM companies '' @ joinedQueries @ '' ORDER BY name''"

definition company_all_sql :: string where
  "company_all_sql =
     ''SELECT handle, name, description, num_employees AS '' @ dq @ ''numEmployees'' @ dq
     @ '', logo_url AS '' @ dq @ ''logoUrl'' @ dq
     @ '' FROM companies ORDER BY name''"

text \<open>\<open>None\<close> is the call without an argument (\<^verbatim>\<open>filterBy === undefined\<close>).\<close>

definition Company_findAll ::
  "('s, 'r) db \<Rightarrow> (js_value \<Rightarrow> js_value) \<Rightarrow> js_object option \<Rightarrow> 's \<Rightarrow> (error + 'r list) \<times> 's" where
  "Company_findAll db toNumber filterBy s =
     (case filterBy of
        None \<Rightarrow>
          (case db company_all_sql [] s of
             (Inl e, s1) \<Rightarrow> (Inl e, s1)
           | (Inr rows, s1) \<Rightarrow>
               if length rows = 0 then (Inl (NotFoundError ''No companies exist in database''), s1)
               else (Inr rows, s1))
      | Some fb \<Rightarrow>
          (let (joinedQueries, values) = Company_where toNumber fb in
           case db (Company_query joinedQueries) values s of
             (Inl e, s1) \<Rightarrow> (Inl e, s1)
           | (Inr rows, s1) \<Rightarrow>
               if length rows = 0 then
                 (Inl (NotFoundError ''No companies match the parameters''), s1)
               else (Inr rows, s1)))"

section \<open>routes/jobs.js\<close>

text \<open>
  What a handler and the middleware before it read of a request: the caller that the
  token middleware left in \<^verbatim>\<open>res.locals.user\<close> (\<open>None\<close> when the request carries no valid
  token), the parsed query string, the JSON body and the route parameter \<^verbatim>\<open>:id\<close>.
\<close>

record user =
  username :: string
  isAdmin :: bool

record request =
  caller :: "user option"
  query :: js_object
  body :: js_object
  param_id :: string

datatype 'r response =
    Created "'r option"
  | Jobs "'r list"
  | Job 'r
  | Deleted string

text \<open>
  A middleware either calls \<^verbatim>\<open>next()\<close> (\<open>None\<close>) or hands an error to the error handler
  (\<open>Some e\<close>). \<^verbatim>\<open>router.post("/", m1, m2, handler)\<close> runs them in order and reaches the
  handler only when every middleware before it called \<^verbatim>\<open>next()\<close>.
\<close>

type_synonym middleware = "request \<Rightarrow> error option"

fun run_route ::
  "middleware list \<Rightarrow> (request \<Rightarrow> 's \<Rightarrow> (error + 'a) \<times> 's) \<Rightarrow> request \<Rightarrow> 's \<Rightarrow> (error + 'a) \<times> 's" where
  "run_route [] handler req s = handler req s"
| "run_route (m # ms) handler req s =
     (case m req of
        Some e \<Rightarrow> (Inl e, s)
      | None \<Rightarrow> run_route ms handler req s)"

text \<open>
  The middleware \<^verbatim>\<open>ensureLoggedIn\<close> and \<^verbatim>\<open>ensureAdmin\<close> and the JSON schemas are imported
  from modules that are not among the sources, so the routes take them as parameters. A
  schema is the list of messages the validator reports for a body; the body is valid
  when there is none.
\<close>

definition jobs_post ::
  "middleware \<Rightarrow> middleware \<Rightarrow> (js_object \<Rightarrow> string list) \<Rightarrow> ('s, 'r) db
     \<Rightarrow> request \<Rightarrow> 's \<Rightarrow> (error + 'r response) \<times> 's" where
  "jobs_post ensureLoggedIn ensureAdmin jobNewSchema db =
     run_route [ensureLoggedIn, ensureAdmin] (\<lambda>req s.
       let errs = jobNewSchema (body req) in
       if errs \<noteq> [] then (Inl (BadRequestErrors errs), s)
       else
         (case Job_create db (body req) s of
            (Inl e, s1) \<Rightarrow> (Inl e, s1)
          | (Inr job, s1) \<Rightarrow> (Inr (Created job), s1)))"

definition supportedFilters :: "string list" where
  "supportedFilters = [''titleLike'', ''minSalary'', ''hasEquity'']"

text \<open>
  The validation loop of \<^verbatim>\<open>GET /jobs\<close> over the keys of the query: the first entry that
  fails a check throws, and the later entries are not looked at.
\<close>

fun jobs_get_check :: "js_object \<Rightarrow> error option" where
  "jobs_get_check [] = None"
| "jobs_get_check ((key, v) # rest) =
     (if key \<notin> set supportedFilters then
        Some (BadRequestError (''Cannot filter results by parameter '' @ ap @ key @ ap))
      else if key \<in> set [''titleLike'', ''minSalary''] \<and> v = JStr [] then
        Some (BadRequestError (''Missing value for parameter '' @ ap @ key @ ap))
      else jobs_get_check rest)"

definition jobs_get :: "('s, 'r) db \<Rightarrow> request \<Rightarrow> 's \<Rightarrow> (error + 'r response) \<times> 's" where
  "jobs_get db req s =
     (let filterBy = query req in
      if length (map fst filterBy) = 0 then
        (case Job_findAll db [] s of
           (Inl e, s1) \<Rightarrow> (Inl e, s1)
         | (Inr jobs, s1) \<Rightarrow> (Inr (Jobs jobs), s1))
      else
        (case jobs_get_check filterBy of
           Some e \<Rightarrow> (Inl e, s)
         | None \<Rightarrow>
             (case Job_findAll db filterBy s of
                (Inl e, s1) \<Rightarrow> (Inl e, s1)
              | (Inr filteredJobs, s1) \<Rightarrow> (Inr (Jobs filteredJobs), s1))))"

definition jobs_patch ::
  "middleware \<Rightarrow> middleware \<Rightarrow> (js_object \<Rightarrow> string list) \<Rightarrow> ('s, 'r) db
     \<Rightarrow> request \<Rightarrow> 's \<Rightarrow> (error + 'r response) \<times> 's" where
  "jobs_patch ensureLoggedIn ensureAdmin jobUpdateSchema db =
     run_route [ensureLoggedIn, ensureAdmin] (\<lambda>req s.
       let errs = jobUpdateSchema (body req) in
       if errs \<noteq> [] then (Inl (BadRequestErrors errs), s)
       else
         (case Job_update db (JStr (param_id req)) (body req) s of
            (Inl e, s1) \<Rightarrow> (Inl e, s1)
          | (Inr job, s1) \<Rightarrow> (Inr (Job job), s1)))"

definition jobs_delete ::
  "middleware \<Rightarrow> middleware \<Rightarrow> ('s, 'r) db
     \<Rightarrow> request \<Rightarrow> 's \<Rightarrow> (error + 'r response) \<times> 's" where
  "jobs_delete ensureLoggedIn ensureAdmin db =
     run_route [ensureLoggedIn, ensureAdmin] (\<lambda>req s.
       case Job_remove db (JStr (param_id req)) s of
         (Inl e, s1) \<Rightarrow> (Inl e, s1)
       | (Inr u, s1) \<Rightarrow> (Inr (Deleted (''Job: '' @ param_id req)), s1))"

section \<open>middleware/auth.js\<close>

text \<open>
  Modelled from the spec: \<^verbatim>\<open>middleware/auth.js\<close> is not among the sources; only the
  routes that use it and their tests are. \<open>ensureLoggedIn\<close> is the predicate
  \<^verbatim>\<open>requireAuthenticated\<close> of section 4.4 of the specification: it fails with Unauthorized
  if the caller is anonymous.
\<close>

definition ensureLoggedIn :: middleware where
  "ensureLoggedIn req =
     (case caller req of None \<Rightarrow> Some UnauthorizedError | Some u \<Rightarrow> None)"

text \<open>
  Modelled from the spec: \<^verbatim>\<open>middleware/auth.js\<close> is not among the sources. \<open>ensureAdmin\<close>
  is the predicate \<^verbatim>\<open>requireAdmin\<close> of section 4.4 of the specification: it fails with
  Forbidden if the caller is not an admin, and a caller is an admin only if the
  credential carries that role claim.
\<close>

definition ensureAdmin :: middleware where
  "ensureAdmin req =
     (case caller req of
        None \<Rightarrow> Some ForbiddenError
      | Some u \<Rightarrow> if isAdmin u then None else Some ForbiddenError)"

section \<open>A store to run the repositories on\<close>

text \<open>
  A small store for concrete runs: the handles of the companies it holds and the
  statements issued so far. It answers the handle lookup of the two \<^verbatim>\<open>create\<close> methods
  with the matching rows, adds the handle on the company insert, and has no rows for any
  other statement.
\<close>

record store =
  handles :: "string list"
  issued :: "string list"

definition mem_db :: "(store, js_object) db" where
  "mem_db sql params st =
     (let st1 = st \<lparr> issued := issued st @ [sql] \<rparr> in
      if sql = company_dup_check_sql then
        (Inr (map (\<lambda>h. [(''handle'', JStr h)])
               (filter (\<lambda>h. [JStr h] = take 1 params) (handles st))), st1)
      else if sql = company_insert_sql then
        (Inr [zip [''handle'', ''name'', ''description'', ''numEmployees'', ''logoUrl''] params],
         st1 \<lparr> handles := handles st @ [js_to_string (hd (params @ [JUndefined]))] \<rparr>)
      else (Inr [], st1))"

text \<open>
  To run \<^verbatim>\<open>Company.findAll\<close> with: the conversion of a decimal numeral to its number
  (other values are left as they are; the runs below convert numerals only). And to run
  the routes with: a schema that reports no error for any body.
\<close>

definition decimal_toNumber :: "js_value \<Rightarrow> js_value" where
  "decimal_toNumber v =
     (case v of
        JStr s \<Rightarrow> if s \<noteq> [] \<and> set s \<subseteq> set ''0123456789'' then JNum (int (read_nat s)) else v
      | _ \<Rightarrow> v)"

definition accept_all :: "js_object \<Rightarrow> string list" where
  "accept_all b = []"

section \<open>The route tests of the admin gate\<close>

text \<open>
  The two tests \<^verbatim>\<open>unauth for non-Admin\<close> and \<^verbatim>\<open>unauth for anon\<close> of \<^verbatim>\<open>POST /jobs\<close> in the
  route tests of the repository, as predicates on the parts the route is assembled
  from. \<open>u2\<close> is the caller of \<^verbatim>\<open>u2Token\<close>, created with \<^verbatim>\<open>isAdmin: false\<close>. The status of
  a response is the one the handler sets, or the status of the error handed to the error
  handler. The member \<^verbatim>\<open>equity: 0.05\<close> of \<^verbatim>\<open>newJob\<close> is left out: fractional numbers are
  outside the value model, and no gate reads the body.
\<close>

definition status_code :: "error + 'r response \<Rightarrow> nat" where
  "status_code r = (case r of Inl e \<Rightarrow> status e | Inr (Created job) \<Rightarrow> 201 | Inr other \<Rightarrow> 200)"

definition newJob :: js_object where
  "newJob = [(''title'', JStr ''j5''), (''salary'', JNum 500), (''companyHandle'', JStr ''c1'')]"

definition u2 :: user where
  "u2 = \<lparr> username = ''u2'', isAdmin = False \<rparr>"

definition post_jobs_request :: "user option \<Rightarrow> request" where
  "post_jobs_request c = \<lparr> caller = c, query = [], body = newJob, param_id = [] \<rparr>"

definition test_post_unauth_for_non_admin ::
  "middleware \<Rightarrow> middleware \<Rightarrow> (js_object \<Rightarrow> string list) \<Rightarrow> ('s, 'r) db \<Rightarrow> 's \<Rightarrow> bool" where
  "test_post_unauth_for_non_admin gateA gateB jobNewSchema db s =
     (status_code (fst (jobs_post gateA gateB jobNewSchema db (post_jobs_request (Some u2)) s)) = 401)"

definition test_post_unauth_for_anon ::
  "middleware \<Rightarrow> middleware \<Rightarrow> (js_object \<Rightarrow> string list) \<Rightarrow> ('s, 'r) db \<Rightarrow> 's \<Rightarrow> bool" where
  "test_post_unauth_for_anon gateA gateB jobNewSchema db s =
     (status_code (fst (jobs_post gateA gateB jobNewSchema db (post_jobs_request None) s)) = 401)"

section \<open>Decimal numerals and joined text\<close>

lemma digit_val_digit: "d < 10 \<Longrightarrow> digit_val (digit d) = d"
proof -
  assume "d < 10"
  then have "d \<in> {0,1,2,3,4,5,6,7,8,9}" by auto
  then show ?thesis by (auto simp: digit_val_def digit_def)
qed

lemma read_nat_snoc: "read_nat (s @ [c]) = 10 * read_nat s + digit_val c"
  by (simp add: read_nat_def)

lemma read_show_nat: "read_nat (show_nat n) = n"
proof (induction n rule: show_nat.induct)
  case (1 n)
  show ?case
  proof (cases "n < 10")
    case True
    then show ?thesis
      by (subst show_nat.simps) (simp add: read_nat_def digit_val_digit)
  next
    case False
    with 1 have "read_nat (show_nat (n div 10)) = n div 10" by simp
    with False show ?thesis
      by (subst show_nat.simps) (simp add: read_nat_snoc digit_val_digit)
  qed
qed

lemma digit_in_digits: "d < 10 \<Longrightarrow> digit d \<in> set ''0123456789''"
  unfolding digit_def by (rule nth_mem) simp

lemma show_nat_digits_only: "set (show_nat n) \<subseteq> set ''0123456789''"
proof (induction n rule: show_nat.induct)
  case (1 n)
  show ?case
  proof (cases "n < 10")
    case True
    then show ?thesis
      using digit_in_digits[of n] by (subst show_nat.simps) simp
  next
    case False
    with 1 have "set (show_nat (n div 10)) \<subseteq> set ''0123456789''" by simp
    moreover have "digit (n mod 10) \<in> set ''0123456789''" by (rule digit_in_digits) simp
    ultimately show ?thesis using False
      by (subst show_nat.simps) simp
  qed
qed

lemma show_nat_no_dollar: "count_list (show_nat n) (CHR ''$'') = 0"
proof -
  have "CHR ''$'' \<notin> set (show_nat n)" using show_nat_digits_only[of n] by auto
  then show ?thesis by (simp add: count_list_0_iff)
qed

lemma count_list_join:
  "count_list (join sep xs) c =
     sum_list (map (\<lambda>x. count_list x c) xs) + (length xs - 1) * count_list sep c"
  by (induction sep xs rule: join.induct) simp_all

section \<open>Properties of the update compiler\<close>

lemma show_nat_no_dollar_set: "CHR ''$'' \<notin> set (show_nat n)"
  using show_nat_digits_only[of n] by auto

lemma placeholder_index_suffix: "placeholder_index (pre @ ''$'' @ show_nat n) = n"
proof -
  have "takeWhile (\<lambda>c. c \<noteq> CHR ''$'') (rev (show_nat n) @ CHR ''$'' # rev pre) = rev (show_nat n)"
  proof -
    have "\<And>x. x \<in> set (rev (show_nat n)) \<Longrightarrow> x \<noteq> CHR ''$''"
      using show_nat_no_dollar_set[of n] by auto
    then have "takeWhile (\<lambda>c. c \<noteq> CHR ''$'') (rev (show_nat n) @ CHR ''$'' # rev pre)
        = rev (show_nat n) @ takeWhile (\<lambda>c. c \<noteq> CHR ''$'') (CHR ''$'' # rev pre)"
      by (rule takeWhile_append2)
    then show ?thesis by simp
  qed
  then show ?thesis by (simp add: placeholder_index_def read_show_nat)
qed

lemma update_cols_length: "length (update_cols jsToSql keys) = length keys"
  by (simp add: update_cols_def)

lemma update_cols_nth:
  "i < length keys \<Longrightarrow> update_cols jsToSql keys ! i = set_col jsToSql (i, keys ! i)"
  by (simp add: update_cols_def nth_enumerate_eq)

lemma set_col_placeholder: "placeholder_index (set_col jsToSql (i, k)) = i + 1"
proof -
  have "set_col jsToSql (i, k) = (dq @ column_of jsToSql k @ dq @ ''='') @ ''$'' @ show_nat (i + 1)"
    by (simp add: set_col_def)
  then show ?thesis by (simp only: placeholder_index_suffix)
qed

lemma set_col_dollars:
  "CHR ''$'' \<notin> set (column_of jsToSql k) \<Longrightarrow> count_list (set_col jsToSql (i, k)) (CHR ''$'') = 1"
  by (simp add: set_col_def dq_def show_nat_no_dollar count_list_0_iff)

lemma update_cols_dollars:
  assumes "\<forall>k \<in> set keys. CHR ''$'' \<notin> set (column_of jsToSql k)"
  shows "sum_list (map (\<lambda>x. count_list x (CHR ''$'')) (update_cols jsToSql keys)) = length keys"
proof -
  have "map (\<lambda>x. count_list x (CHR ''$'')) (update_cols jsToSql keys) = replicate (length keys) 1"
    by (rule nth_equalityI)
      (use assms in \<open>simp_all add: update_cols_length update_cols_nth set_col_dollars\<close>)
  then show ?thesis by (simp add: sum_list_replicate)
qed

text \<open>
  C5. For every non-empty update request the compiler succeeds; the SET clause is the
  join of one fragment per entry, the fragment of the entry at position \<open>i\<close> (from 0)
  being the quoted column, \<^verbatim>\<open>=\<close> and the placeholder numbered \<open>i + 1\<close>; the value list
  is the values of the entries in the same order. When no column name contains a
  \<^verbatim>\<open>$\<close>, the clause text holds exactly as many \<^verbatim>\<open>$\<close> as the request has entries.
\<close>

theorem sqlForPartialUpdate_placeholders:
  assumes "dataToUpdate \<noteq> []"
  shows "sqlForPartialUpdate dataToUpdate jsToSql =
           Inr \<lparr> setCols = join '', '' (update_cols jsToSql (map fst dataToUpdate)),
                 vals = map snd dataToUpdate \<rparr>
       \<and> length (update_cols jsToSql (map fst dataToUpdate)) = length dataToUpdate
       \<and> (\<forall>i < length dataToUpdate.
             update_cols jsToSql (map fst dataToUpdate) ! i =
               dq @ column_of jsToSql (fst (dataToUpdate ! i)) @ dq @ ''=$'' @ show_nat (i + 1)
           \<and> placeholder_index (update_cols jsToSql (map fst dataToUpdate) ! i) = i + 1
           \<and> map snd dataToUpdate ! i = snd (dataToUpdate ! i))
       \<and> ((\<forall>k \<in> set (map fst dataToUpdate). CHR ''$'' \<notin> set (column_of jsToSql k)) \<longrightarrow>
            count_list (join '', '' (update_cols jsToSql (map fst dataToUpdate))) (CHR ''$'')
              = length dataToUpdate)"
proof (intro conjI allI impI)
  show "sqlForPartialUpdate dataToUpdate jsToSql =
           Inr \<lparr> setCols = join '', '' (update_cols jsToSql (map fst dataToUpdate)),
                 vals = map snd dataToUpdate \<rparr>"
    using assms by (simp add: sqlForPartialUpdate_def)
next
  show "length (update_cols jsToSql (map fst dataToUpdate)) = length dataToUpdate"
    by (simp add: update_cols_length)
next
  fix i assume "i < length dataToUpdate"
  then show "update_cols jsToSql (map fst dataToUpdate) ! i =
               dq @ column_of jsToSql (fst (dataToUpdate ! i)) @ dq @ ''=$'' @ show_nat (i + 1)"
    by (simp add: update_cols_nth set_col_def)
next
  fix i assume "i < length dataToUpdate"
  then show "placeholder_index (update_cols jsToSql (map fst dataToUpdate) ! i) = i + 1"
    by (simp add: update_cols_nth set_col_placeholder)
next
  fix i assume "i < length dataToUpdate"
  then show "map snd dataToUpdate ! i = snd (dataToUpdate ! i)" by simp
next
  assume "\<forall>k \<in> set (map fst dataToUpdate). CHR ''$'' \<notin> set (column_of jsToSql k)"
  then have "sum_list (map (\<lambda>x. count_list x (CHR ''$'')) (update_cols jsToSql (map fst dataToUpdate)))
      = length (map fst dataToUpdate)"
    by (rule update_cols_dollars)
  then show "count_list (join '', '' (update_cols jsToSql (map fst dataToUpdate))) (CHR ''$'')
              = length dataToUpdate"
    by (simp add: count_list_join)
qed

theorem sqlForPartialUpdate_placeholders_witness:
  "[(''title'', JStr ''X''), (''salary'', JNull)] \<noteq> []
   \<and> (1::nat) < length [(''title'', JStr ''X''), (''salary'', JNull)]
   \<and> CHR ''$'' \<notin> set (column_of [''salary'' \<mapsto> ''salary''] ''title'')
   \<and> CHR ''$'' \<notin> set (column_of [''salary'' \<mapsto> ''salary''] ''salary'')
   \<and> sqlForPartialUpdate [(''title'', JStr ''X''), (''salary'', JNull)] [''salary'' \<mapsto> ''salary'']
       = Inr \<lparr> setCols = join '', '' (update_cols [''salary'' \<mapsto> ''salary''] [''title'', ''salary'']),
               vals = [JStr ''X'', JNull] \<rparr>
   \<and> placeholder_index (update_cols [''salary'' \<mapsto> ''salary''] [''title'', ''salary''] ! 1) = 2
   \<and> count_list (join '', '' (update_cols [''salary'' \<mapsto> ''salary''] [''title'', ''salary'']))
         (CHR ''$'') = 2"
proof -
  let ?d = "[(''title'', JStr ''X''), (''salary'', JNull)]"
  let ?m = "[''salary'' \<mapsto> ''salary'']"
  have ne: "?d \<noteq> []" by simp
  have lt: "(1::nat) < length ?d" by simp
  have nd: "\<forall>k \<in> set (map fst ?d). CHR ''$'' \<notin> set (column_of ?m k)"
    by (simp add: column_of_def)
  note t = sqlForPartialUpdate_placeholders [of ?d ?m, OF ne]
  from t have a: "sqlForPartialUpdate ?d ?m =
      Inr \<lparr> setCols = join '', '' (update_cols ?m (map fst ?d)), vals = map snd ?d \<rparr>"
    by (rule conjunct1)
  from t lt have b: "placeholder_index (update_cols ?m (map fst ?d) ! 1) = 1 + 1"
    by blast
  from t nd have c: "count_list (join '', '' (update_cols ?m (map fst ?d))) (CHR ''$'') = length ?d"
    by blast
  from nd have nd': "CHR ''$'' \<notin> set (column_of ?m ''title'')"
    "CHR ''$'' \<notin> set (column_of ?m ''salary'')" by simp_all
  from ne lt nd' a b c show ?thesis by simp
qed

text \<open>
  C6. For every column map, the update compiler applied to the empty update request
  fails with the bad-request error "No data"; no SET clause is produced.
\<close>

theorem sqlForPartialUpdate_empty:
  "sqlForPartialUpdate [] jsToSql = Inl (BadRequestError ''No data'')"
  by (simp add: sqlForPartialUpdate_def)

text \<open>
  C7. The request \<^verbatim>\<open>{title: "X", salary: null}\<close> against a column map whose only entry is
  \<^verbatim>\<open>salary: "salary"\<close> compiles to the clause \<^verbatim>\<open>"title"=$1, "salary"=$2\<close> with the values
  \<^verbatim>\<open>["X", null]\<close> in that order: the unmapped name stands for itself and the null is
  bound, not dropped.
\<close>

theorem sqlForPartialUpdate_title_salary_null:
  "sqlForPartialUpdate [(''title'', JStr ''X''), (''salary'', JNull)]
     [''salary'' \<mapsto> ''salary'']
   = Inr \<lparr> setCols = dq @ ''title'' @ dq @ ''=$1, '' @ dq @ ''salary'' @ dq @ ''=$2'',
           vals = [JStr ''X'', JNull] \<rparr>"
  by code_simp

section \<open>Properties of the filter compilers\<close>

lemma step_title:
  "Job_filter_step (fs, vs) (''titleLike'', v) =
     (fs @ [''title ILIKE $'' @ show_nat (length fs + 1)], vs @ [JStr (''%'' @ js_to_string v @ ''%'')])"
  by (simp add: Job_filter_step_def)

lemma step_salary:
  "Job_filter_step (fs, vs) (''minSalary'', v) =
     (fs @ [''salary >= $'' @ show_nat (length fs + 1)], vs @ [v])"
  by (simp add: Job_filter_step_def)

lemma step_equity:
  "Job_filter_step (fs, vs) (''hasEquity'', v) = (fs @ [''equity > 0''], vs)"
  by (simp add: Job_filter_step_def)

lemma step_other:
  "k \<noteq> ''titleLike'' \<Longrightarrow> k \<noteq> ''minSalary'' \<Longrightarrow> k \<noteq> ''hasEquity'' \<Longrightarrow>
     Job_filter_step (fs, vs) (k, v) = (fs, vs)"
  by (simp add: Job_filter_step_def)

lemmas steps = step_title step_salary step_equity step_other

lemma key_cases:
  obtains "k = ''titleLike''" | "k = ''minSalary''" | "k = ''hasEquity''"
  | "k \<noteq> ''titleLike''" "k \<noteq> ''minSalary''" "k \<noteq> ''hasEquity''"
  by blast

lemma Job_filter_step_values:
  "snd (foldl Job_filter_step (fs, vs) fb) =
     vs @ concat (map (\<lambda>(k, v). if k = ''titleLike'' then [JStr (''%'' @ js_to_string v @ ''%'')]
                                else if k = ''minSalary'' then [v] else []) fb)"
proof (induction fb arbitrary: fs vs)
  case Nil
  show ?case by simp
next
  case (Cons e fb)
  obtain k v where e: "e = (k, v)" by (cases e)
  show ?case
    by (rule key_cases[of k]) (simp_all add: e steps Cons.IH)
qed

lemma Job_filter_step_equity:
  "count_list (fst (foldl Job_filter_step (fs, vs) fb)) ''equity > 0'' =
     count_list fs ''equity > 0'' + count_list (map fst fb) ''hasEquity''"
proof (induction fb arbitrary: fs vs)
  case Nil
  show ?case by simp
next
  case (Cons e fb)
  obtain k v where e: "e = (k, v)" by (cases e)
  show ?case
    by (rule key_cases[of k]) (simp_all add: e steps Cons.IH)
qed

lemma Job_filter_step_dollars:
  "sum_list (map (\<lambda>x. count_list x (CHR ''$'')) (fst (foldl Job_filter_step (fs, vs) fb))) + length vs =
     sum_list (map (\<lambda>x. count_list x (CHR ''$'')) fs) + length (snd (foldl Job_filter_step (fs, vs) fb))"
proof (induction fb arbitrary: fs vs)
  case Nil
  show ?case by simp
next
  case (Cons e fb)
  obtain k v where e: "e = (k, v)" by (cases e)
  show ?case
  proof (rule key_cases[of k])
    assume k: "k = ''titleLike''"
    show ?thesis
      using Cons.IH[of "fs @ [''title ILIKE $'' @ show_nat (length fs + 1)]"
                       "vs @ [JStr (''%'' @ js_to_string v @ ''%'')]"]
      by (simp add: e k step_title show_nat_no_dollar)
  next
    assume k: "k = ''minSalary''"
    show ?thesis
      using Cons.IH[of "fs @ [''salary >= $'' @ show_nat (length fs + 1)]" "vs @ [v]"]
      by (simp add: e k step_salary show_nat_no_dollar)
  next
    assume k: "k = ''hasEquity''"
    show ?thesis
      using Cons.IH[of "fs @ [''equity > 0'']" vs]
      by (simp add: e k step_equity)
  next
    assume "k \<noteq> ''titleLike''" "k \<noteq> ''minSalary''" "k \<noteq> ''hasEquity''"
    then show ?thesis
      using Cons.IH[of fs vs] by (simp add: e step_other)
  qed
qed

lemma Job_where_dollars:
  "count_list (fst (Job_where filterBy)) (CHR ''$'') = length (snd (Job_where filterBy))"
proof (cases "filterBy = []")
  case True
  then show ?thesis by (simp add: Job_where_def)
next
  case False
  obtain fs vs where r: "foldl Job_filter_step ([], []) filterBy = (fs, vs)"
    by (cases "foldl Job_filter_step ([], []) filterBy")
  from Job_filter_step_dollars[of "[]" "[]" filterBy] r
  have "sum_list (map (\<lambda>x. count_list x (CHR ''$'')) fs) = length vs" by simp
  with False r show ?thesis
    by (simp add: Job_where_def Job_filters_def count_list_join)
qed

lemma concat_map_filter_nil:
  "(\<And>e. e \<in> set xs \<Longrightarrow> \<not> P e \<Longrightarrow> g e = []) \<Longrightarrow> concat (map g (filter P xs)) = concat (map g xs)"
  by (induction xs) auto

lemma Job_filters_values_without_hasEquity:
  "snd (Job_filters (filter (\<lambda>e. fst e \<noteq> ''hasEquity'') filterBy)) = snd (Job_filters filterBy)"
  unfolding Job_filters_def Job_filter_step_values
  by (simp, rule concat_map_filter_nil) auto

lemma count_list_distinct_mem: "distinct xs \<Longrightarrow> x \<in> set xs \<Longrightarrow> count_list xs x = 1"
  by (induction xs) (auto simp: count_list_0_iff)

lemma placeholders_snoc:
  "placeholders (fs @ [f]) = placeholders fs @ (if has_placeholder f then [placeholder_index f] else [])"
  by (simp add: placeholders_def)

lemma numbered_fragment:
  "has_placeholder (pre @ ''$'' @ show_nat n)" "placeholder_index (pre @ ''$'' @ show_nat n) = n"
  by (simp add: has_placeholder_def) (rule placeholder_index_suffix)

lemma aligned_snoc:
  assumes "aligned fs vs"
  shows "aligned (fs @ [pre @ ''$'' @ show_nat (length vs + 1)]) (vs @ [v])"
  using assms unfolding aligned_def placeholders_snoc
  by (simp only: numbered_fragment if_True) simp

lemma company_step_name:
  "Company_filter_step toNumber (fq, vs, idx) (''nameLike'', v) =
     (fq @ [(if idx = 1 then ''WHERE name ILIKE '' else ''name ILIKE '') @ ''$'' @ show_nat idx],
      vs @ [JStr (''%'' @ js_to_string v @ ''%'')], idx + 1)"
  by (simp add: Company_filter_step_def)

lemma company_step_min:
  "Company_filter_step toNumber (fq, vs, idx) (''minEmployees'', v) =
     (fq @ [(if idx = 1 then ''WHERE num_employees >= '' else ''num_employees >= '') @ ''$'' @ show_nat idx],
      vs @ [toNumber v], idx + 1)"
  by (simp add: Company_filter_step_def)

lemma company_step_max:
  "Company_filter_step toNumber (fq, vs, idx) (''maxEmployees'', v) =
     (fq @ [(if idx = 1 then ''WHERE num_employees <= '' else ''num_employees <= '') @ ''$'' @ show_nat idx],
      vs @ [toNumber v], idx + 1)"
  by (simp add: Company_filter_step_def)

lemma company_step_other:
  "k \<noteq> ''nameLike'' \<Longrightarrow> k \<noteq> ''minEmployees'' \<Longrightarrow> k \<noteq> ''maxEmployees'' \<Longrightarrow>
     Company_filter_step toNumber (fq, vs, idx) (k, v) = (fq, vs, idx)"
  by (simp add: Company_filter_step_def)

lemma company_key_cases:
  obtains "k = ''nameLike''" | "k = ''minEmployees''" | "k = ''maxEmployees''"
  | "k \<noteq> ''nameLike''" "k \<noteq> ''minEmployees''" "k \<noteq> ''maxEmployees''"
  by blast

lemma Company_filter_step_aligned:
  assumes "aligned fq vs" and "idx = length vs + 1"
    and "Company_filter_step toNumber (fq, vs, idx) (k, v) = (fq', vs', idx')"
  shows "aligned fq' vs' \<and> idx' = length vs' + 1"
proof (rule company_key_cases[of k])
  assume "k = ''nameLike''"
  with assms(3) have "fq' = fq @ [(if idx = 1 then ''WHERE name ILIKE '' else ''name ILIKE '') @ ''$'' @ show_nat idx]"
    "vs' = vs @ [JStr (''%'' @ js_to_string v @ ''%'')]" "idx' = idx + 1"
    by (simp_all only: company_step_name prod.inject)
  with assms(1,2) show ?thesis by (simp only: aligned_snoc) simp
next
  assume "k = ''minEmployees''"
  with assms(3) have "fq' = fq @ [(if idx = 1 then ''WHERE num_employees >= '' else ''num_employees >= '') @ ''$'' @ show_nat idx]"
    "vs' = vs @ [toNumber v]" "idx' = idx + 1"
    by (simp_all only: company_step_min prod.inject)
  with assms(1,2) show ?thesis by (simp only: aligned_snoc) simp
next
  assume "k = ''maxEmployees''"
  with assms(3) have "fq' = fq @ [(if idx = 1 then ''WHERE num_employees <= '' else ''num_employees <= '') @ ''$'' @ show_nat idx]"
    "vs' = vs @ [toNumber v]" "idx' = idx + 1"
    by (simp_all only: company_step_max prod.inject)
  with assms(1,2) show ?thesis by (simp only: aligned_snoc) simp
next
  assume "k \<noteq> ''nameLike''" "k \<noteq> ''minEmployees''" "k \<noteq> ''maxEmployees''"
  with assms show ?thesis by (auto simp: company_step_other)
qed

lemma Company_fold_aligned:
  assumes "aligned fq vs" and "idx = length vs + 1"
    and "foldl (Company_filter_step toNumber) (fq, vs, idx) fb = (fq', vs', idx')"
  shows "aligned fq' vs' \<and> idx' = length vs' + 1"
  using assms
proof (induction fb arbitrary: fq vs idx)
  case Nil
  then show ?case by auto
next
  case (Cons e fb)
  obtain k v where e: "e = (k, v)" by (cases e)
  obtain fq1 vs1 idx1 where st: "Company_filter_step toNumber (fq, vs, idx) (k, v) = (fq1, vs1, idx1)"
    by (cases "Company_filter_step toNumber (fq, vs, idx) (k, v)")
  from Company_filter_step_aligned[OF Cons.prems(1,2) st]
  have "aligned fq1 vs1" "idx1 = length vs1 + 1" by simp_all
  moreover from Cons.prems(3) have "foldl (Company_filter_step toNumber) (fq1, vs1, idx1) fb = (fq', vs', idx')"
    by (simp add: e st)
  ultimately show ?case by (rule Cons.IH)
qed

lemma Company_filters_aligned:
  "Company_filters toNumber filterBy = (filterQueries, vs, idx) \<Longrightarrow>
     aligned filterQueries vs \<and> idx = length vs + 1"
  unfolding Company_filters_def
  by (rule Company_fold_aligned[of "[]" "[]" 1]) (simp_all add: aligned_def placeholders_def)

lemma Job_fold_aligned:
  assumes "aligned fs vs" and "length fs = length vs" and "''hasEquity'' \<notin> fst ` set fb"
  shows "aligned (fst (foldl Job_filter_step (fs, vs) fb)) (snd (foldl Job_filter_step (fs, vs) fb))"
  using assms
proof (induction fb arbitrary: fs vs)
  case Nil
  then show ?case by simp
next
  case (Cons e fb)
  obtain k v where e: "e = (k, v)" by (cases e)
  from Cons.prems(3) have ne: "k \<noteq> ''hasEquity''" and rest: "''hasEquity'' \<notin> fst ` set fb"
    by (auto simp: e)
  show ?case
  proof (rule key_cases[of k])
    assume k: "k = ''titleLike''"
    have "aligned (fs @ [''title ILIKE '' @ ''$'' @ show_nat (length vs + 1)])
            (vs @ [JStr (''%'' @ js_to_string v @ ''%'')])"
      using Cons.prems(1) by (rule aligned_snoc)
    then show ?thesis
      using Cons.IH[of "fs @ [''title ILIKE $'' @ show_nat (length fs + 1)]"
                       "vs @ [JStr (''%'' @ js_to_string v @ ''%'')]"] Cons.prems(2) rest
      by (simp add: e k step_title)
  next
    assume k: "k = ''minSalary''"
    have "aligned (fs @ [''salary >= '' @ ''$'' @ show_nat (length vs + 1)]) (vs @ [v])"
      using Cons.prems(1) by (rule aligned_snoc)
    then show ?thesis
      using Cons.IH[of "fs @ [''salary >= $'' @ show_nat (length fs + 1)]" "vs @ [v]"]
        Cons.prems(2) rest
      by (simp add: e k step_salary)
  next
    assume "k = ''hasEquity''"
    with ne show ?thesis by simp
  next
    assume "k \<noteq> ''titleLike''" "k \<noteq> ''minSalary''" "k \<noteq> ''hasEquity''"
    then show ?thesis
      using Cons.IH[of fs vs] Cons.prems(1,2) rest by (simp add: e step_other)
  qed
qed

lemma Job_filters_aligned_without_hasEquity:
  "''hasEquity'' \<notin> fst ` set filterBy \<Longrightarrow>
     aligned (fst (Job_filters filterBy)) (snd (Job_filters filterBy))"
  unfolding Job_filters_def
  by (rule Job_fold_aligned) (simp_all add: aligned_def placeholders_def)

text \<open>
  C1. The request \<^verbatim>\<open>GET /jobs?hasEquity=true&minSalary=100\<close> passes the validation of the
  route, and \<^verbatim>\<open>Job.findAll\<close> compiles it to \<^verbatim>\<open>WHERE equity > 0 AND salary >= $2\<close> with the
  single bound value \<^verbatim>\<open>"100"\<close>: the only placeholder of the clause is numbered 2, so the
  numbering does not start at 1 and is not aligned with the value list. The index is
  taken from the length of \<^verbatim>\<open>filters\<close>, which the fragment of \<^verbatim>\<open>hasEquity\<close> has made
  longer than \<^verbatim>\<open>values\<close>. (\<open>Company_filters_aligned\<close> and
  \<open>Job_filters_aligned_without_hasEquity\<close> above show the numbering right in the company
  compiler, which counts with \<^verbatim>\<open>idx\<close>, and in the job compiler without \<^verbatim>\<open>hasEquity\<close>.)
\<close>

theorem Job_where_hasEquity_first:
  "jobs_get_check [(''hasEquity'', JStr ''true''), (''minSalary'', JStr ''100'')] = None
   \<and> Job_where [(''hasEquity'', JStr ''true''), (''minSalary'', JStr ''100'')]
       = (''WHERE equity > 0 AND salary >= $2'', [JStr ''100''])
   \<and> placeholders (fst (Job_filters [(''hasEquity'', JStr ''true''), (''minSalary'', JStr ''100'')])) = [2]
   \<and> \<not> aligned (fst (Job_filters [(''hasEquity'', JStr ''true''), (''minSalary'', JStr ''100'')]))
               (snd (Job_filters [(''hasEquity'', JStr ''true''), (''minSalary'', JStr ''100'')]))"
  by code_simp

lemma Job_where_title_salary:
  "Job_where [(''titleLike'', t), (''minSalary'', v)]
     = (''WHERE title ILIKE $1 AND salary >= $2'', [JStr (''%'' @ js_to_string t @ ''%''), v])"
  by (simp add: Job_where_def Job_filters_def Job_filter_step_def show_nat.simps digit_def)

lemma Company_where_coerces:
  "Company_where toNumber [(''minEmployees'', lo), (''maxEmployees'', hi)]
     = (''WHERE num_employees >= $1 AND num_employees <= $2'', [toNumber lo, toNumber hi])"
  by (simp add: Company_where_def Company_filters_def Company_filter_step_def
      show_nat.simps digit_def)

text \<open>
  C2. The request \<^verbatim>\<open>GET /jobs?titleLike=j&minSalary=300\<close> passes the validation of the
  route, and \<^verbatim>\<open>Job.findAll\<close> compiles \<^verbatim>\<open>{titleLike: "j", minSalary: "300"}\<close> to the two
  predicates \<^verbatim>\<open>WHERE title ILIKE $1 AND salary >= $2\<close> with the values \<^verbatim>\<open>["%j%", "300"]\<close>: the
  second value is bound as the string it arrived as, not as the number 300.
  (\<open>Job_where_title_salary\<close> above: the value of \<^verbatim>\<open>minSalary\<close> is bound as supplied, whatever
  it is; \<open>Company_where_coerces\<close>: the company compiler binds the unary plus of its two
  bounds.)
\<close>

theorem Job_where_minSalary_not_coerced:
  "jobs_get_check [(''titleLike'', JStr ''j''), (''minSalary'', JStr ''300'')] = None
   \<and> Job_where [(''titleLike'', JStr ''j''), (''minSalary'', JStr ''300'')]
       = (''WHERE title ILIKE $1 AND salary >= $2'', [JStr ''%j%'', JStr ''300''])
   \<and> snd (Job_where [(''titleLike'', JStr ''j''), (''minSalary'', JStr ''300'')])
       \<noteq> [JStr ''%j%'', JNum 300]"
  by code_simp

lemma jobs_get_check_hasEquity:
  "jobs_get_check ((''hasEquity'', v) # rest) = jobs_get_check rest"
  by (simp add: supportedFilters_def)

lemma jobs_get_check_without_hasEquity:
  "jobs_get_check (filter (\<lambda>e. fst e \<noteq> ''hasEquity'') filterBy) = jobs_get_check filterBy"
proof (induction filterBy)
  case Nil
  show ?case by simp
next
  case (Cons e fb)
  obtain k v where e: "e = (k, v)" by (cases e)
  show ?case
  proof (cases "k = ''hasEquity''")
    case True
    with Cons.IH show ?thesis
      by (simp add: e jobs_get_check_hasEquity del: jobs_get_check.simps)
  next
    case False
    with Cons.IH show ?thesis by (simp add: e)
  qed
qed

text \<open>
  What does hold of the presence filter, for every filter request (an object, so with
  distinct keys) that has the key \<^verbatim>\<open>hasEquity\<close>, whatever value comes with it: the fragment
  \<^verbatim>\<open>equity > 0\<close> is emitted exactly once; its text holds no \<^verbatim>\<open>$\<close>; the bound values are
  those of the request without the entry; the clause text has as many \<^verbatim>\<open>$\<close> as there are
  bound values; and the validation of the route passes or fails as it does without the
  entry. The indices of the placeholders are another matter, below.
\<close>

lemma hasEquity_presence:
  assumes "distinct (map fst filterBy)" and "(''hasEquity'', v) \<in> set filterBy"
  shows "count_list (fst (Job_filters filterBy)) ''equity > 0'' = 1
       \<and> \<not> has_placeholder ''equity > 0''
       \<and> snd (Job_filters filterBy)
           = snd (Job_filters (filter (\<lambda>e. fst e \<noteq> ''hasEquity'') filterBy))
       \<and> count_list (fst (Job_where filterBy)) (CHR ''$'') = length (snd (Job_where filterBy))
       \<and> jobs_get_check filterBy
           = jobs_get_check (filter (\<lambda>e. fst e \<noteq> ''hasEquity'') filterBy)"
proof (intro conjI)
  from assms(2) have "''hasEquity'' \<in> set (map fst filterBy)" by force
  with assms(1) have "count_list (map fst filterBy) ''hasEquity'' = 1"
    by (rule count_list_distinct_mem)
  then show "count_list (fst (Job_filters filterBy)) ''equity > 0'' = 1"
    by (simp add: Job_filters_def Job_filter_step_equity)
next
  show "\<not> has_placeholder ''equity > 0''" by (simp add: has_placeholder_def)
next
  show "snd (Job_filters filterBy)
           = snd (Job_filters (filter (\<lambda>e. fst e \<noteq> ''hasEquity'') filterBy))"
    by (rule Job_filters_values_without_hasEquity[symmetric])
next
  show "count_list (fst (Job_where filterBy)) (CHR ''$'') = length (snd (Job_where filterBy))"
    by (rule Job_where_dollars)
next
  show "jobs_get_check filterBy
           = jobs_get_check (filter (\<lambda>e. fst e \<noteq> ''hasEquity'') filterBy)"
    by (rule jobs_get_check_without_hasEquity[symmetric])
qed

text \<open>
  C4. The request \<^verbatim>\<open>GET /jobs?hasEquity=&titleLike=1\<close> passes the validation of the route,
  and \<^verbatim>\<open>Job.findAll\<close> compiles \<^verbatim>\<open>{hasEquity: "", titleLike: "1"}\<close> to
  \<^verbatim>\<open>WHERE equity > 0 AND title ILIKE $2\<close> with the single value \<^verbatim>\<open>"%1%"\<close>. The fragment of
  \<^verbatim>\<open>hasEquity\<close> binds no value, but it uses up the index 1: the placeholder of
  \<^verbatim>\<open>titleLike\<close>, numbered 1 in the request without \<^verbatim>\<open>hasEquity\<close>, is numbered 2 with it.
\<close>

theorem hasEquity_first_uses_up_index:
  "jobs_get_check [(''hasEquity'', JStr []), (''titleLike'', JStr ''1'')] = None
   \<and> Job_where [(''hasEquity'', JStr []), (''titleLike'', JStr ''1'')]
       = (''WHERE equity > 0 AND title ILIKE $2'', [JStr ''%1%''])
   \<and> placeholders (fst (Job_filters [(''hasEquity'', JStr []), (''titleLike'', JStr ''1'')])) = [2]
   \<and> placeholders (fst (Job_filters [(''titleLike'', JStr ''1'')])) = [1]
   \<and> snd (Job_filters [(''hasEquity'', JStr []), (''titleLike'', JStr ''1'')])
       = snd (Job_filters [(''titleLike'', JStr ''1'')])"
  by code_simp

section \<open>Properties of the routes and the repositories\<close>

lemma jobs_get_check_prefix:
  "jobs_get_check pre = None \<Longrightarrow> jobs_get_check (pre @ rest) = jobs_get_check rest"
  by (induction pre rule: jobs_get_check.induct) (auto split: if_splits)

lemma jobs_get_check_unrecognized:
  "k \<in> fst ` set q \<Longrightarrow> k \<notin> set supportedFilters \<Longrightarrow>
     \<exists>msg. jobs_get_check q = Some (BadRequestError msg)"
  by (induction q rule: jobs_get_check.induct) auto

lemma jobs_get_rejected:
  "query req \<noteq> [] \<Longrightarrow> jobs_get_check (query req) = Some e \<Longrightarrow> jobs_get db req s = (Inl e, s)"
  by (simp add: jobs_get_def)

text \<open>
  C3, amended. For every request to \<^verbatim>\<open>GET /jobs\<close> whose query has a key outside the
  supported filters, the route fails with a bad-request error and leaves the store in
  the state it was in, whatever the driver: \<^verbatim>\<open>Job.findAll\<close> is not called, so the key is not
  ignored and no clause is compiled from the other keys. When every entry before the key
  passes the validation, the error is the one naming that key.
\<close>

theorem jobs_get_unrecognized_key:
  assumes "query req = pre @ (k, v) # post" and "k \<notin> set supportedFilters"
  shows "(\<exists>msg. jobs_get db req s = (Inl (BadRequestError msg), s))
       \<and> (jobs_get_check pre = None \<longrightarrow>
            jobs_get db req s =
              (Inl (BadRequestError (''Cannot filter results by parameter '' @ ap @ k @ ap)), s))"
proof (intro conjI impI)
  from assms(1) have ne: "query req \<noteq> []" and mem: "k \<in> fst ` set (query req)" by force+
  from jobs_get_check_unrecognized[OF mem assms(2)]
  obtain msg where "jobs_get_check (query req) = Some (BadRequestError msg)" ..
  with ne have "jobs_get db req s = (Inl (BadRequestError msg), s)" by (rule jobs_get_rejected)
  then show "\<exists>msg. jobs_get db req s = (Inl (BadRequestError msg), s)" ..
next
  assume "jobs_get_check pre = None"
  then have "jobs_get_check (query req) = jobs_get_check ((k, v) # post)"
    unfolding assms(1) by (rule jobs_get_check_prefix)
  with assms(2) have "jobs_get_check (query req) =
      Some (BadRequestError (''Cannot filter results by parameter '' @ ap @ k @ ap))"
    by simp
  moreover from assms(1) have "query req \<noteq> []" by simp
  ultimately show "jobs_get db req s =
      (Inl (BadRequestError (''Cannot filter results by parameter '' @ ap @ k @ ap)), s)"
    by (simp add: jobs_get_rejected)
qed

theorem jobs_get_unrecognized_key_witness:
  "query \<lparr> caller = None, query = [(''title'', JStr ''j'')], body = [], param_id = [] \<rparr>
     = [] @ (''title'', JStr ''j'') # []
   \<and> ''title'' \<notin> set supportedFilters
   \<and> jobs_get_check [] = None
   \<and> jobs_get mem_db \<lparr> caller = None, query = [(''title'', JStr ''j'')], body = [], param_id = [] \<rparr>
        \<lparr> handles = [], issued = [] \<rparr>
     = (Inl (BadRequestError (''Cannot filter results by parameter '' @ ap @ ''title'' @ ap)),
        \<lparr> handles = [], issued = [] \<rparr>)"
proof -
  let ?req = "\<lparr> caller = None, query = [(''title'', JStr ''j'')], body = [], param_id = [] \<rparr>"
  have q: "query ?req = [] @ (''title'', JStr ''j'') # []" by simp
  have u: "''title'' \<notin> set supportedFilters" by (simp add: supportedFilters_def)
  have c: "jobs_get_check [] = None" by simp
  from jobs_get_unrecognized_key [OF q u, of mem_db "\<lparr> handles = [], issued = [] \<rparr>"] c
  have "jobs_get mem_db ?req \<lparr> handles = [], issued = [] \<rparr>
     = (Inl (BadRequestError (''Cannot filter results by parameter '' @ ap @ ''title'' @ ap)),
        \<lparr> handles = [], issued = [] \<rparr>)" by blast
  with q u c show ?thesis by blast
qed

text \<open>
  C3, as stated, fails: for \<^verbatim>\<open>GET /jobs?titleLike=&foo=x\<close> the route fails with the
  missing-value error naming \<^verbatim>\<open>titleLike\<close>, not with the error naming the unrecognized key
  \<^verbatim>\<open>foo\<close>: the validation loop throws at the first entry that fails a check.
\<close>

theorem jobs_get_missing_value_first_counterexample:
  "fst (jobs_get mem_db
         \<lparr> caller = None, query = [(''titleLike'', JStr []), (''foo'', JStr ''x'')],
           body = [], param_id = [] \<rparr>
         \<lparr> handles = [], issued = [] \<rparr>)
     = Inl (BadRequestError (''Missing value for parameter '' @ ap @ ''titleLike'' @ ap))
   \<and> fst (jobs_get mem_db
         \<lparr> caller = None, query = [(''titleLike'', JStr []), (''foo'', JStr ''x'')],
           body = [], param_id = [] \<rparr>
         \<lparr> handles = [], issued = [] \<rparr>)
     \<noteq> Inl (BadRequestError (''Cannot filter results by parameter '' @ ap @ ''foo'' @ ap))"
  by code_simp

lemma Job_findAll_never_empty: "fst (Job_findAll db filterBy s) \<noteq> Inr []"
  by (auto simp: Job_findAll_def split: prod.splits sum.splits)

lemma Job_findAll_zero_rows:
  "fst (db (Job_query (fst (Job_where filterBy))) (snd (Job_where filterBy)) s) = Inr [] \<Longrightarrow>
     fst (Job_findAll db filterBy s) = Inl (NotFoundError ''No jobs match the parameters'')"
  by (auto simp: Job_findAll_def split: prod.splits sum.splits)

lemma Company_findAll_never_empty: "fst (Company_findAll db toNumber filterBy s) \<noteq> Inr []"
  by (auto simp: Company_findAll_def split: prod.splits sum.splits option.splits)

lemma Company_findAll_zero_rows:
  "fst (db (Company_query (fst (Company_where toNumber fb))) (snd (Company_where toNumber fb)) s) = Inr [] \<Longrightarrow>
     fst (Company_findAll db toNumber (Some fb) s) = Inl (NotFoundError ''No companies match the parameters'')"
  by (auto simp: Company_findAll_def split: prod.splits sum.splits)

lemma Company_findAll_none_zero_rows:
  "fst (db company_all_sql [] s) = Inr [] \<Longrightarrow>
     fst (Company_findAll db toNumber None s) = Inl (NotFoundError ''No companies exist in database'')"
  by (auto simp: Company_findAll_def split: prod.splits sum.splits)

text \<open>
  C8. Whenever the store answers the read that \<^verbatim>\<open>Job.findAll\<close> or \<^verbatim>\<open>Company.findAll\<close>
  issues with zero rows, the method fails with a not-found error; this holds with
  filters, with the empty filter object and, for companies, for the call without an
  argument. Neither method ever returns the empty list.
\<close>

theorem findAll_zero_rows:
  "(fst (db (Job_query (fst (Job_where filterBy))) (snd (Job_where filterBy)) s) = Inr [] \<longrightarrow>
      fst (Job_findAll db filterBy s) = Inl (NotFoundError ''No jobs match the parameters''))
   \<and> fst (Job_findAll db filterBy s) \<noteq> Inr []
   \<and> (fst (db (Company_query (fst (Company_where toNumber fb))) (snd (Company_where toNumber fb)) s)
        = Inr [] \<longrightarrow>
      fst (Company_findAll db toNumber (Some fb) s)
        = Inl (NotFoundError ''No companies match the parameters''))
   \<and> (fst (db company_all_sql [] s) = Inr [] \<longrightarrow>
      fst (Company_findAll db toNumber None s)
        = Inl (NotFoundError ''No companies exist in database''))
   \<and> fst (Company_findAll db toNumber cf s) \<noteq> Inr []"
  by (simp only: Job_findAll_never_empty Company_findAll_never_empty not_False_eq_True simp_thms)
     (blast intro: Job_findAll_zero_rows Company_findAll_zero_rows Company_findAll_none_zero_rows)

theorem findAll_zero_rows_witness:
  "fst (mem_db (Job_query (fst (Job_where [(''titleLike'', JStr ''99'')])))
         (snd (Job_where [(''titleLike'', JStr ''99'')])) \<lparr> handles = [], issued = [] \<rparr>) = Inr []
   \<and> fst (Job_findAll mem_db [(''titleLike'', JStr ''99'')] \<lparr> handles = [], issued = [] \<rparr>)
       = Inl (NotFoundError ''No jobs match the parameters'')
   \<and> fst (Job_findAll mem_db [] \<lparr> handles = [], issued = [] \<rparr>)
       = Inl (NotFoundError ''No jobs match the parameters'')
   \<and> fst (mem_db (Company_query (fst (Company_where decimal_toNumber [(''minEmployees'', JStr ''5'')])))
         (snd (Company_where decimal_toNumber [(''minEmployees'', JStr ''5'')]))
         \<lparr> handles = [], issued = [] \<rparr>) = Inr []
   \<and> fst (Company_findAll mem_db decimal_toNumber (Some [(''minEmployees'', JStr ''5'')])
         \<lparr> handles = [], issued = [] \<rparr>)
       = Inl (NotFoundError ''No companies match the parameters'')
   \<and> fst (mem_db company_all_sql [] \<lparr> handles = [], issued = [] \<rparr>) = Inr []
   \<and> fst (Company_findAll mem_db decimal_toNumber None \<lparr> handles = [], issued = [] \<rparr>)
       = Inl (NotFoundError ''No companies exist in database'')"
proof -
  let ?s = "\<lparr> handles = [], issued = [] \<rparr>"
  let ?fb = "[(''titleLike'', JStr ''99'')]"
  let ?cb = "[(''minEmployees'', JStr ''5'')]"
  have h1: "fst (mem_db (Job_query (fst (Job_where ?fb))) (snd (Job_where ?fb)) ?s) = Inr []"
    by code_simp
  have h1': "fst (mem_db (Job_query (fst (Job_where []))) (snd (Job_where [])) ?s) = Inr []"
    by code_simp
  have h2: "fst (mem_db (Company_query (fst (Company_where decimal_toNumber ?cb)))
         (snd (Company_where decimal_toNumber ?cb)) ?s) = Inr []"
    by code_simp
  have h3: "fst (mem_db company_all_sql [] ?s) = Inr []"
    by code_simp
  from findAll_zero_rows [of mem_db ?fb ?s decimal_toNumber ?cb] h1 h2 h3
  have a: "fst (Job_findAll mem_db ?fb ?s) = Inl (NotFoundError ''No jobs match the parameters'')"
    and b: "fst (Company_findAll mem_db decimal_toNumber (Some ?cb) ?s)
       = Inl (NotFoundError ''No companies match the parameters'')"
    and c: "fst (Company_findAll mem_db decimal_toNumber None ?s)
       = Inl (NotFoundError ''No companies exist in database'')"
    by blast+
  from findAll_zero_rows [of mem_db "[]" ?s decimal_toNumber ?cb] h1'
  have d: "fst (Job_findAll mem_db [] ?s) = Inl (NotFoundError ''No jobs match the parameters'')"
    by blast
  from h1 h2 h3 a b c d show ?thesis by blast
qed

lemma run_route_rejected:
  "gateA req = None \<Longrightarrow> gateB req = Some e \<Longrightarrow> run_route [gateA, gateB] handler req s = (Inl e, s)"
  by simp

lemma run_route_first_rejected:
  "gateA req = Some e \<Longrightarrow> run_route (gateA # gates) handler req s = (Inl e, s)"
  by simp

lemma non_admin_gates:
  "caller req = Some u \<Longrightarrow> \<not> isAdmin u \<Longrightarrow>
     ensureLoggedIn req = None \<and> ensureAdmin req = Some ForbiddenError"
  by (simp add: ensureLoggedIn_def ensureAdmin_def)

lemma anonymous_gate: "caller req = None \<Longrightarrow> ensureLoggedIn req = Some UnauthorizedError"
  by (simp add: ensureLoggedIn_def)

text \<open>
  C9. Whatever the two middleware are, when the first lets the request through and the
  second rejects it, each of the admin-gated job routes (create, update, delete) answers
  with that error and the store is in the state it was in, whatever the driver: no
  repository method is called. With the gate as the specification gives it, a caller
  whose credential is present but lacks the admin claim gets Forbidden from each of the
  three routes, and an anonymous caller gets Unauthorized, a different failure, again
  with the store untouched.
\<close>

theorem admin_gate_short_circuit:
  "(gateA req = None \<and> gateB req = Some e \<longrightarrow>
       jobs_post gateA gateB schema db req s = (Inl e, s)
     \<and> jobs_patch gateA gateB schema db req s = (Inl e, s)
     \<and> jobs_delete gateA gateB db req s = (Inl e, s))
   \<and> (caller req = Some u \<and> \<not> isAdmin u \<longrightarrow>
       jobs_post ensureLoggedIn ensureAdmin schema db req s = (Inl ForbiddenError, s)
     \<and> jobs_patch ensureLoggedIn ensureAdmin schema db req s = (Inl ForbiddenError, s)
     \<and> jobs_delete ensureLoggedIn ensureAdmin db req s = (Inl ForbiddenError, s))
   \<and> (caller req = None \<longrightarrow>
       jobs_post ensureLoggedIn ensureAdmin schema db req s = (Inl UnauthorizedError, s)
     \<and> jobs_patch ensureLoggedIn ensureAdmin schema db req s = (Inl UnauthorizedError, s)
     \<and> jobs_delete ensureLoggedIn ensureAdmin db req s = (Inl UnauthorizedError, s))
   \<and> ForbiddenError \<noteq> UnauthorizedError
   \<and> status ForbiddenError \<noteq> status UnauthorizedError"
proof (intro conjI impI)
  assume "gateA req = None \<and> gateB req = Some e"
  then have g: "gateA req = None" "gateB req = Some e" by simp_all
  show "jobs_post gateA gateB schema db req s = (Inl e, s)"
    unfolding jobs_post_def using g by (rule run_route_rejected)
  show "jobs_patch gateA gateB schema db req s = (Inl e, s)"
    unfolding jobs_patch_def using g by (rule run_route_rejected)
  show "jobs_delete gateA gateB db req s = (Inl e, s)"
    unfolding jobs_delete_def using g by (rule run_route_rejected)
next
  assume "caller req = Some u \<and> \<not> isAdmin u"
  then have "ensureLoggedIn req = None \<and> ensureAdmin req = Some ForbiddenError"
    using non_admin_gates by blast
  then have g: "ensureLoggedIn req = None" "ensureAdmin req = Some ForbiddenError" by simp_all
  show "jobs_post ensureLoggedIn ensureAdmin schema db req s = (Inl ForbiddenError, s)"
    unfolding jobs_post_def using g by (rule run_route_rejected)
  show "jobs_patch ensureLoggedIn ensureAdmin schema db req s = (Inl ForbiddenError, s)"
    unfolding jobs_patch_def using g by (rule run_route_rejected)
  show "jobs_delete ensureLoggedIn ensureAdmin db req s = (Inl ForbiddenError, s)"
    unfolding jobs_delete_def using g by (rule run_route_rejected)
next
  assume "caller req = None"
  then have g: "ensureLoggedIn req = Some UnauthorizedError" by (rule anonymous_gate)
  show "jobs_post ensureLoggedIn ensureAdmin schema db req s = (Inl UnauthorizedError, s)"
    unfolding jobs_post_def using g by (rule run_route_first_rejected)
  show "jobs_patch ensureLoggedIn ensureAdmin schema db req s = (Inl UnauthorizedError, s)"
    unfolding jobs_patch_def using g by (rule run_route_first_rejected)
  show "jobs_delete ensureLoggedIn ensureAdmin db req s = (Inl UnauthorizedError, s)"
    unfolding jobs_delete_def using g by (rule run_route_first_rejected)
next
  show "ForbiddenError \<noteq> UnauthorizedError" by simp
  show "status ForbiddenError \<noteq> status UnauthorizedError" by simp
qed

theorem admin_gate_short_circuit_witness:
  "caller (post_jobs_request (Some u2)) = Some u2
   \<and> \<not> isAdmin u2
   \<and> ensureLoggedIn (post_jobs_request (Some u2)) = None
   \<and> ensureAdmin (post_jobs_request (Some u2)) = Some ForbiddenError
   \<and> jobs_post ensureLoggedIn ensureAdmin accept_all mem_db (post_jobs_request (Some u2))
         \<lparr> handles = [''c1''], issued = [] \<rparr>
       = (Inl ForbiddenError, \<lparr> handles = [''c1''], issued = [] \<rparr>)
   \<and> jobs_delete ensureLoggedIn ensureAdmin mem_db (post_jobs_request (Some u2))
         \<lparr> handles = [''c1''], issued = [] \<rparr>
       = (Inl ForbiddenError, \<lparr> handles = [''c1''], issued = [] \<rparr>)
   \<and> caller (post_jobs_request None) = None
   \<and> jobs_post ensureLoggedIn ensureAdmin accept_all mem_db (post_jobs_request None)
         \<lparr> handles = [''c1''], issued = [] \<rparr>
       = (Inl UnauthorizedError, \<lparr> handles = [''c1''], issued = [] \<rparr>)"
proof -
  let ?req = "post_jobs_request (Some u2)"
  let ?anon = "post_jobs_request None"
  let ?s = "\<lparr> handles = [''c1''], issued = [] \<rparr>"
  have c: "caller ?req = Some u2" by (simp add: post_jobs_request_def)
  have n: "\<not> isAdmin u2" by (simp add: u2_def)
  have a: "ensureLoggedIn ?req = None" by (simp add: ensureLoggedIn_def post_jobs_request_def)
  have b: "ensureAdmin ?req = Some ForbiddenError"
    by (simp add: ensureAdmin_def post_jobs_request_def u2_def)
  have c': "caller ?anon = None" by (simp add: post_jobs_request_def)
  note t = admin_gate_short_circuit
    [of ensureLoggedIn ?req ensureAdmin ForbiddenError accept_all mem_db ?s u2]
  from t a b have p: "jobs_post ensureLoggedIn ensureAdmin accept_all mem_db ?req ?s
      = (Inl ForbiddenError, ?s)" by blast
  from t c n have d: "jobs_delete ensureLoggedIn ensureAdmin mem_db ?req ?s
      = (Inl ForbiddenError, ?s)" by blast
  note t' = admin_gate_short_circuit
    [of ensureLoggedIn ?anon ensureAdmin ForbiddenError accept_all mem_db ?s u2]
  from t' c' have q: "jobs_post ensureLoggedIn ensureAdmin accept_all mem_db ?anon ?s
      = (Inl UnauthorizedError, ?s)" by blast
  from c n a b p d c' q show ?thesis by blast
qed

text \<open>
  The route tests of the repository against this gate. The test
  \<^verbatim>\<open>unauth for non-Admin\<close> passes exactly when the gate that rejects \<open>u2\<close> does so with an
  error of status 401; with the gate of the specification, which rejects with Forbidden,
  it does not pass, while \<^verbatim>\<open>unauth for anon\<close> does. The middleware of the repository is
  not among the sources to decide between the two.
\<close>

lemma route_test_fixes_status:
  assumes "gateA (post_jobs_request (Some u2)) = None"
    and "gateB (post_jobs_request (Some u2)) = Some e"
  shows "test_post_unauth_for_non_admin gateA gateB schema db s \<longleftrightarrow> status e = 401"
  using assms by (simp add: test_post_unauth_for_non_admin_def jobs_post_def status_code_def)

lemma spec_gate_against_route_tests:
  "\<not> test_post_unauth_for_non_admin ensureLoggedIn ensureAdmin schema db s"
  "test_post_unauth_for_anon ensureLoggedIn ensureAdmin schema db s"
  by (simp_all add: test_post_unauth_for_non_admin_def test_post_unauth_for_anon_def
      jobs_post_def status_code_def ensureLoggedIn_def ensureAdmin_def post_jobs_request_def u2_def)

lemma jobs_post_admin_example:
  "jobs_post ensureLoggedIn ensureAdmin accept_all mem_db
         \<lparr> caller = Some \<lparr> username = ''u1'', isAdmin = True \<rparr>, query = [],
            body = [(''title'', JStr ''j5''), (''salary'', JNum 500), (''companyHandle'', JStr ''c1'')],
            param_id = [] \<rparr>
         \<lparr> handles = [''c1''], issued = [] \<rparr>
   = (Inr (Created None), \<lparr> handles = [''c1''], issued = [job_company_check_sql, job_insert_sql] \<rparr>)"
  by code_simp

text \<open>
  C10. When the duplicate check of \<^verbatim>\<open>Company.create\<close> finds a row for the supplied handle,
  the method fails with the bad-request error \<^verbatim>\<open>Duplicate company: <handle>\<close>, and the
  store is in the state the check left: no further statement is issued. On the store
  \<open>mem_db\<close>, when the handle is among the companies, the companies are unchanged and
  the only statement issued is the check.
\<close>

theorem Company_create_duplicate:
  "(db company_dup_check_sql [field data ''handle''] s = (Inr rows, s1) \<and> rows \<noteq> [] \<longrightarrow>
      Company_create db data s =
        (Inl (BadRequestError (''Duplicate company: '' @ js_to_string (field data ''handle''))), s1))
   \<and> (field data ''handle'' = JStr h \<and> h \<in> set (handles st) \<longrightarrow>
      Company_create mem_db data st =
        (Inl (BadRequestError (''Duplicate company: '' @ h)),
         st \<lparr> issued := issued st @ [company_dup_check_sql] \<rparr>))"
proof (intro conjI impI)
  assume "db company_dup_check_sql [field data ''handle''] s = (Inr rows, s1) \<and> rows \<noteq> []"
  then show "Company_create db data s =
        (Inl (BadRequestError (''Duplicate company: '' @ js_to_string (field data ''handle''))), s1)"
    by (cases rows) (simp_all add: Company_create_def first_row_def)
next
  assume a: "field data ''handle'' = JStr h \<and> h \<in> set (handles st)"
  then have "filter (\<lambda>x. x = h) (handles st) \<noteq> []"
    by (simp add: filter_empty_conv)
  then obtain r rs where "map (\<lambda>h. [(''handle'', JStr h)]) (filter (\<lambda>x. x = h) (handles st)) = r # rs"
    by (cases "filter (\<lambda>x. x = h) (handles st)") auto
  with a show "Company_create mem_db data st =
        (Inl (BadRequestError (''Duplicate company: '' @ h)),
         st \<lparr> issued := issued st @ [company_dup_check_sql] \<rparr>)"
    by (simp add: Company_create_def mem_db_def first_row_def)
qed

theorem Company_create_duplicate_witness:
  "mem_db company_dup_check_sql
       [field [(''handle'', JStr ''c1''), (''name'', JStr ''C1''), (''numEmployees'', JNum 1),
               (''description'', JStr ''Desc1''), (''logoUrl'', JStr ''http://c1.img'')] ''handle'']
       \<lparr> handles = [''c1'', ''c2''], issued = [] \<rparr>
     = (Inr [[(''handle'', JStr ''c1'')]],
        \<lparr> handles = [''c1'', ''c2''], issued = [company_dup_check_sql] \<rparr>)
   \<and> [[(''handle'', JStr ''c1'')]] \<noteq> []
   \<and> field [(''handle'', JStr ''c1''), (''name'', JStr ''C1''), (''numEmployees'', JNum 1),
             (''description'', JStr ''Desc1''), (''logoUrl'', JStr ''http://c1.img'')] ''handle''
       = JStr ''c1''
   \<and> ''c1'' \<in> set (handles \<lparr> handles = [''c1'', ''c2''], issued = [] \<rparr>)
   \<and> Company_create mem_db
         [(''handle'', JStr ''c1''), (''name'', JStr ''C1''), (''numEmployees'', JNum 1),
          (''description'', JStr ''Desc1''), (''logoUrl'', JStr ''http://c1.img'')]
         \<lparr> handles = [''c1'', ''c2''], issued = [] \<rparr>
       = (Inl (BadRequestError ''Duplicate company: c1''),
          \<lparr> handles = [''c1'', ''c2''], issued = [company_dup_check_sql] \<rparr>)"
proof -
  let ?data = "[(''handle'', JStr ''c1''), (''name'', JStr ''C1''), (''numEmployees'', JNum 1),
          (''description'', JStr ''Desc1''), (''logoUrl'', JStr ''http://c1.img'')]"
  let ?st = "\<lparr> handles = [''c1'', ''c2''], issued = [] \<rparr>"
  let ?st1 = "\<lparr> handles = [''c1'', ''c2''], issued = [company_dup_check_sql] \<rparr>"
  have q: "mem_db company_dup_check_sql [field ?data ''handle''] ?st
     = (Inr [[(''handle'', JStr ''c1'')]], ?st1)"
    by (simp add: mem_db_def field_def)
  have ne: "[[(''handle'', JStr ''c1'')]] \<noteq> []" by simp
  have f: "field ?data ''handle'' = JStr ''c1''" by (simp add: field_def)
  have m: "''c1'' \<in> set (handles ?st)" by simp
  note t = Company_create_duplicate [of mem_db ?data ?st "[[(''handle'', JStr ''c1'')]]" ?st1 "''c1''" ?st]
  from t q ne have "Company_create mem_db ?data ?st =
      (Inl (BadRequestError (''Duplicate company: '' @ js_to_string (field ?data ''handle''))), ?st1)"
    by blast
  with f have r: "Company_create mem_db ?data ?st = (Inl (BadRequestError ''Duplicate company: c1''), ?st1)"
    by simp
  from q ne f m r show ?thesis by blast
qed

lemma Company_create_fresh_example:
  "Company_create mem_db
     [(''handle'', JStr ''c3''), (''name'', JStr ''C3'')]
     \<lparr> handles = [''c1'', ''c2''], issued = [] \<rparr>
   = (Inr (Some [(''handle'', JStr ''c3''), (''name'', JStr ''C3''), (''description'', JUndefined),
                 (''numEmployees'', JUndefined), (''logoUrl'', JUndefined)]),
      \<lparr> handles = [''c1'', ''c2'', ''c3''],
         issued = [company_dup_check_sql, company_insert_sql] \<rparr>)"
  by code_simp

end
